theory Spec2Isabelle
  imports Complex_Main
begin

section \<open>Repack Manager: the download worker of \<open>repack.py\<close> and \<open>richer_gui.py\<close>\<close>

text \<open>
  Both files define the same classes \<open>DownloadStatus\<close>, \<open>DownloadItem\<close> and \<open>DownloaderGUI\<close>;
  the worker thread \<open>DownloaderGUI.download_worker\<close> differs between them in a few places.
  The functions imported from module \<open>cli\<close> (\<open>setup_driver\<close>, \<open>click_download_button\<close>,
  \<open>check_file_exists\<close>, \<open>get_filename_from_url\<close>), the file system and the clock are
  collaborators whose code is not part of the two files: they are parameters of the model.
\<close>

subsection \<open>Data model\<close>

datatype DownloadStatus = PENDING | DOWNLOADING | COMPLETED | FAILED | SKIPPED

text \<open>
  \<open>DownloadItem\<close>. The field \<open>size\<close> of the source is \<open>size_mb\<close> here; it holds
  \<open>os.path.getsize(p) / (1024 * 1024)\<close>, a quotient that a Python float represents exactly
  for every file below \<open>2 ^ 53\<close> bytes. Timestamps are readings of the clock.
\<close>

record DownloadItem =
  url :: string
  filename :: string
  status :: DownloadStatus
  progress :: nat
  size_mb :: rat
  checksum :: "string option"
  error :: "string option"
  start_time :: "nat option"
  end_time :: "nat option"

type_synonym exn = string
type_synonym driver = nat

text \<open>
  The calls the program makes on the outside world, in the order they are made. A
  collaborator answers as a function of this history, so its answers may change as the
  run proceeds (a file appears after a download, a session goes stale).
\<close>

datatype call =
    Mkdir
  | Remove string
  | Setup_driver "exn + driver"
  | Quit driver
  | Sleep nat
  | Click "driver option" string

text \<open>
  The collaborators. \<open>Inl e\<close> is a raised exception. \<open>click_download_button\<close>
  answers \<open>True\<close> where the source's test \<open>result is True\<close> holds and \<open>False\<close> for
  every other value returned. \<open>self.driver.quit()\<close> is taken not to raise (it is only
  recorded in the history). \<open>getsize\<close> answers \<open>None\<close> for a
  path that does not exist: there \<open>Path.exists()\<close> is false and \<open>os.path.getsize\<close> raises.
  \<open>read_file\<close> is the chunked read of \<open>calculate_checksum\<close>, \<open>sha256\<close> the hex digest of
  the bytes read.
\<close>

record cli =
  setup_driver :: "call list \<Rightarrow> exn + driver"
  click_download_button :: "call list \<Rightarrow> driver option \<Rightarrow> string \<Rightarrow> exn + bool"
  check_file_exists :: "call list \<Rightarrow> string \<Rightarrow> string option"
  get_filename_from_url :: "string \<Rightarrow> string option"
  mkdir :: "call list \<Rightarrow> exn option"
  listdir :: "call list \<Rightarrow> exn + string list"
  getsize :: "call list \<Rightarrow> string \<Rightarrow> nat option"
  read_file :: "call list \<Rightarrow> string \<Rightarrow> exn + nat list"
  sha256 :: "nat list \<Rightarrow> string"
  time_time :: "call list \<Rightarrow> nat"

text \<open>
  Messages stand for the formatted texts of the source (the f-strings, some with emoji and
  float formatting); the constructor keeps the values the text is built from.
\<close>

datatype message =
    Processing nat nat string
  | Cleaning_temporary_files
  | Skipped_exists string
  | Downloading string
  | Refreshing_browser_session
  | Verifying_checksum string
  | Completed_msg string rat
  | Success_msg string
  | Failed_msg string
  | Error_msg exn
  | Critical_error exn
  | Checksum_error exn
  | Downloads_paused
  | Downloads_stopped

datatype level = Info | Success | Warning | Error

text \<open>
  What the worker puts on \<open>gui_queue\<close>. \<open>Progress a b\<close> is the tuple
  \<open>('progress', int((a/b)*100))\<close>.
\<close>

datatype event =
    Log message level
  | Status message
  | Progress nat nat
  | Update_queue
  | Update_stats
  | Download_complete

text \<open>
  The fields of \<open>DownloaderGUI\<close> that the worker and the Pause and Stop buttons read or
  write. \<open>log_text\<close> holds the lines written by \<open>self.log\<close> directly (not through the
  queue); \<open>calls\<close> is the history of calls made so far.
\<close>

record DownloaderGUI =
  download_items :: "DownloadItem list"
  is_downloading :: bool
  driver :: "driver option"
  gui_queue :: "event list"
  log_text :: "(message \<times> level) list"
  checksum_var :: bool
  clean_cr_var :: bool
  session_refresh_var :: int
  calls :: "call list"

subsection \<open>Python helpers\<close>

definition endswith :: "string \<Rightarrow> string \<Rightarrow> bool" where
  "endswith s suf = (take (length suf) (rev s) = rev suf)"

text \<open>\<open>s.endswith((a, b, ...))\<close> with a tuple of suffixes.\<close>

definition endswith_any :: "string \<Rightarrow> string list \<Rightarrow> bool" where
  "endswith_any s sufs = list_ex (endswith s) sufs"

definition temp_suffixes :: "string list" where
  "temp_suffixes = [''.crdownload'', ''.part'', ''.tmp'']"

definition richer_skip_suffixes :: "string list" where
  "richer_skip_suffixes = [''.crdownload'', ''.part'']"

definition put :: "event \<Rightarrow> DownloaderGUI \<Rightarrow> DownloaderGUI" where
  "put ev g = g\<lparr>gui_queue := gui_queue g @ [ev]\<rparr>"

definition called :: "call list \<Rightarrow> DownloaderGUI \<Rightarrow> DownloaderGUI" where
  "called cs g = g\<lparr>calls := calls g @ cs\<rparr>"

definition megabytes :: "nat \<Rightarrow> rat" where
  "megabytes b = of_nat b / (1024 * 1024)"

subsection \<open>Loading the queue\<close>

text \<open>
  \<open>DownloadItem.__init__\<close>: \<open>filename or get_filename_from_url(url) or url[:50]\<close> with
  no \<open>filename\<close> argument given, as at both call sites.
\<close>

definition DownloadItem_init :: "cli \<Rightarrow> string \<Rightarrow> DownloadItem" where
  "DownloadItem_init env u =
     \<lparr>url = u,
      filename = (case get_filename_from_url env u of
                    None \<Rightarrow> take 50 u
                  | Some f \<Rightarrow> if f \<noteq> [] then f else take 50 u),
      status = PENDING, progress = 0, size_mb = 0, checksum = None, error = None,
      start_time = None, end_time = None\<rparr>"

text \<open>
  \<open>dict.fromkeys(urls)\<close>: the keys in insertion order; assigning an existing key keeps
  its place. \<open>list(...)\<close> of the dict is the list of keys in that order.
\<close>

fun fromkeys_acc :: "'a list \<Rightarrow> 'a list \<Rightarrow> 'a list" where
  "fromkeys_acc keys [] = keys"
| "fromkeys_acc keys (u # us) =
     fromkeys_acc (if u \<in> set keys then keys else keys @ [u]) us"

definition dict_fromkeys :: "'a list \<Rightarrow> 'a list" where
  "dict_fromkeys us = fromkeys_acc [] us"

text \<open>\<open>process_loaded_urls\<close> of \<open>richer_gui.py\<close> (the display updates and the log line left out).\<close>

definition process_loaded_urls :: "cli \<Rightarrow> string list \<Rightarrow> DownloaderGUI \<Rightarrow> DownloaderGUI" where
  "process_loaded_urls env urls g =
     g\<lparr>download_items := map (DownloadItem_init env) (dict_fromkeys urls)\<rparr>"

text \<open>
  \<open>load_urls\<close> of \<open>repack.py\<close> from the point where \<open>urls\<close> has been gathered: an empty
  list shows a warning and returns with the queue as it was.
\<close>

definition load_urls :: "cli \<Rightarrow> string list \<Rightarrow> DownloaderGUI \<Rightarrow> DownloaderGUI" where
  "load_urls env urls g =
     (if urls = [] then g
      else g\<lparr>download_items := map (DownloadItem_init env) (dict_fromkeys urls)\<rparr>)"

text \<open>
  The words of the specification, for comparison: each identity once, in the order of
  first occurrence.
\<close>

fun first_occurrences :: "'a list \<Rightarrow> 'a list" where
  "first_occurrences [] = []"
| "first_occurrences (x # xs) = x # first_occurrences (filter (\<lambda>y. y \<noteq> x) xs)"

subsection \<open>Pause and Stop\<close>

text \<open>
  \<open>pause_downloads\<close> and \<open>stop_downloads\<close> run on the GUI thread (the button states are
  left out). \<open>stop_downloads\<close> quits the driver inside \<open>try ... except: pass\<close> and leaves
  \<open>self.driver\<close> as it is.
\<close>

definition pause_downloads :: "DownloaderGUI \<Rightarrow> DownloaderGUI" where
  "pause_downloads g =
     g\<lparr>is_downloading := False, log_text := log_text g @ [(Downloads_paused, Warning)]\<rparr>"

definition stop_downloads :: "DownloaderGUI \<Rightarrow> DownloaderGUI" where
  "stop_downloads g =
     (let g1 = g\<lparr>is_downloading := False\<rparr>;
          g2 = (case driver g1 of None \<Rightarrow> g1 | Some d \<Rightarrow> called [Quit d] g1)
      in g2\<lparr>log_text := log_text g2 @ [(Downloads_stopped, Error)]\<rparr>)"

text \<open>
  The GUI thread runs beside the worker. The worker reads \<open>is_downloading\<close> only at the
  top of an iteration and neither button writes \<open>self.driver\<close> or a task, so the point
  inside an iteration at which a button press lands does not change what the worker does
  next. A schedule names, for each queue index, the button pressed while that task is being
  processed; the model delivers it when the iteration's body has run. For Pause nothing is
  lost by this. For Stop it fixes the moment at which \<open>stop_downloads\<close> reads
  \<open>self.driver\<close>: the handle it quits is the one in use after any refresh of that
  iteration, as when Stop is pressed while the download call is in flight. Stop pressed
  before the session exists is the start state with \<open>is_downloading\<close> false; Stop
  pressed between the \<open>quit\<close> and the \<open>setup_driver\<close> of a refresh is not in the
  schedule. What \<open>stop_downloads\<close> does to a handle is therefore also stated for
  \<open>stop_downloads\<close> itself, at any state.
\<close>

datatype signal = Pause | Stop

definition deliver :: "signal option \<Rightarrow> DownloaderGUI \<Rightarrow> DownloaderGUI" where
  "deliver s g =
     (case s of None \<Rightarrow> g | Some Pause \<Rightarrow> pause_downloads g | Some Stop \<Rightarrow> stop_downloads g)"

subsection \<open>Pieces of the loop body\<close>

text \<open>
  The branch taken when the file exists (\<open>existing\<close> is the name found). The body of
  \<open>repack.py\<close>; \<open>richer_gui.py\<close> puts one more event.
\<close>

definition skip_branch :: "cli \<Rightarrow> string \<Rightarrow> DownloadItem \<Rightarrow> DownloaderGUI
    \<Rightarrow> DownloadItem \<times> DownloaderGUI" where
  "skip_branch env existing item g =
     (let item1 = item\<lparr>status := SKIPPED\<rparr>;
          item2 = (case getsize env (calls g) existing of
                     None \<Rightarrow> item1
                   | Some b \<Rightarrow> item1\<lparr>size_mb := megabytes b\<rparr>);
          g1 = put (Log (Skipped_exists (filename item)) Warning) g;
          g2 = put Update_queue g1
      in (item2, g2))"

definition richer_skip_branch :: "cli \<Rightarrow> nat \<Rightarrow> nat \<Rightarrow> string \<Rightarrow> DownloadItem \<Rightarrow> DownloaderGUI
    \<Rightarrow> DownloadItem \<times> DownloaderGUI" where
  "richer_skip_branch env idx len existing item g =
     (let (item2, g2) = skip_branch env existing item g
      in (item2, put (Progress idx len) g2))"

text \<open>
  The session refresh, the same text in both files. \<open>T\<close> is the local \<open>session_refresh\<close>,
  \<open>n\<close> the local \<open>downloads_since_refresh\<close>. \<open>self.driver.quit()\<close> on \<open>None\<close> raises
  AttributeError. The result is the exception raised (if any), the counter and the state.
\<close>

definition refresh_session :: "cli \<Rightarrow> int \<Rightarrow> int \<Rightarrow> DownloaderGUI
    \<Rightarrow> exn option \<times> int \<times> DownloaderGUI" where
  "refresh_session env T n g =
     (if n \<ge> T then
        (let g1 = put (Log Refreshing_browser_session Info) g
         in case driver g1 of
              None \<Rightarrow> (Some ''AttributeError'', n, g1)
            | Some d \<Rightarrow>
                (let g2 = called [Quit d, Sleep 1] g1;
                     r = setup_driver env (calls g2);
                     g3 = called [Setup_driver r] g2
                 in case r of
                      Inl e \<Rightarrow> (Some e, n, g3)
                    | Inr d' \<Rightarrow> (None, 0, g3\<lparr>driver := Some d'\<rparr>)))
      else (None, n, g))"

text \<open>\<open>calculate_checksum\<close>, the same in both files: an exception is logged and \<open>None\<close> returned.\<close>

definition calculate_checksum :: "cli \<Rightarrow> string \<Rightarrow> DownloaderGUI \<Rightarrow> string option \<times> DownloaderGUI" where
  "calculate_checksum env file_path g =
     (case read_file env (calls g) file_path of
        Inl e \<Rightarrow> (None, g\<lparr>log_text := log_text g @ [(Checksum_error e, Error)]\<rparr>)
      | Inr bytes \<Rightarrow> (Some (sha256 env bytes), g))"

text \<open>The part under \<open>if self.checksum_var.get():\<close>; the message names the file.\<close>

definition verify_checksum :: "cli \<Rightarrow> message \<Rightarrow> string \<Rightarrow> DownloadItem \<Rightarrow> DownloaderGUI
    \<Rightarrow> DownloadItem \<times> DownloaderGUI" where
  "verify_checksum env m file_path item g =
     (if checksum_var g then
        (let g1 = put (Log m Info) g;
             (c, g2) = calculate_checksum env file_path g1
         in (item\<lparr>checksum := c\<rparr>, g2))
      else (item, g))"

text \<open>
  \<open>if result is True:\<close> in \<open>repack.py\<close>. The size is read only when the path exists, and
  the digest only then; the success line is logged in every case.
\<close>

definition completed_branch :: "cli \<Rightarrow> DownloadItem \<Rightarrow> int \<Rightarrow> DownloaderGUI
    \<Rightarrow> DownloadItem \<times> int \<times> DownloaderGUI" where
  "completed_branch env item n g =
     (let item1 = item\<lparr>status := COMPLETED\<rparr>;
          n1 = n + 1;
          downloaded = check_file_exists env (calls g) (url item);
          (item2, g2) =
            (case downloaded of
               None \<Rightarrow> (item1, g)
             | Some name \<Rightarrow>
                 if name = [] then (item1, g)
                 else (case getsize env (calls g) name of
                         None \<Rightarrow> (item1, g)
                       | Some b \<Rightarrow>
                           verify_checksum env (Verifying_checksum name) name
                             (item1\<lparr>size_mb := megabytes b\<rparr>) g));
          g3 = put (Log (Completed_msg (filename item) (size_mb item2)) Success) g2
      in (item2, n1, g3))"

text \<open>
  The same branch in \<open>richer_gui.py\<close>: \<open>os.path.getsize\<close> is called without asking
  whether the path exists, so it may raise; the success line is logged only when a name
  was found.
\<close>

definition richer_completed_branch :: "cli \<Rightarrow> DownloadItem \<Rightarrow> int \<Rightarrow> DownloaderGUI
    \<Rightarrow> exn option \<times> DownloadItem \<times> int \<times> DownloaderGUI" where
  "richer_completed_branch env item n g =
     (let item1 = item\<lparr>status := COMPLETED\<rparr>;
          n1 = n + 1;
          downloaded = check_file_exists env (calls g) (url item)
      in case downloaded of
           None \<Rightarrow> (None, item1, n1, g)
         | Some name \<Rightarrow>
             if name = [] then (None, item1, n1, g)
             else (case getsize env (calls g) name of
                     None \<Rightarrow> (Some ''FileNotFoundError'', item1, n1, g)
                   | Some b \<Rightarrow>
                       (let (item2, g2) =
                              verify_checksum env (Verifying_checksum name) name
                                (item1\<lparr>size_mb := megabytes b\<rparr>) g
                        in (None, item2, n1,
                            put (Log (Success_msg (filename item)) Success) g2))))"

text \<open>The \<open>else:\<close> branch. \<open>repack.py\<close> records \<open>item.error\<close>, \<open>richer_gui.py\<close> does not.\<close>

definition failed_branch :: "DownloadItem \<Rightarrow> DownloaderGUI \<Rightarrow> DownloadItem \<times> DownloaderGUI" where
  "failed_branch item g =
     (item\<lparr>status := FAILED, error := Some ''Download failed''\<rparr>,
      put (Log (Failed_msg (filename item)) Error) g)"

definition richer_failed_branch :: "DownloadItem \<Rightarrow> DownloaderGUI \<Rightarrow> DownloadItem \<times> DownloaderGUI" where
  "richer_failed_branch item g =
     (item\<lparr>status := FAILED\<rparr>, put (Log (Failed_msg (filename item)) Error) g)"

text \<open>The lines after the \<open>if\<close>/\<open>else\<close>: end timestamp and events.\<close>

definition finish_item :: "cli \<Rightarrow> DownloadItem \<Rightarrow> DownloaderGUI \<Rightarrow> DownloadItem \<times> DownloaderGUI" where
  "finish_item env item g =
     (item\<lparr>end_time := Some (time_time env (calls g))\<rparr>,
      put Update_stats (put Update_queue g))"

subsection \<open>The loop body of \<open>repack.py\<close>\<close>

text \<open>
  From \<open>item.status = DownloadStatus.DOWNLOADING\<close> to the end of the body. The result is
  the exception that left the body (if any), the task, the counter and the state.
\<close>

definition attempt :: "cli \<Rightarrow> int \<Rightarrow> DownloadItem \<Rightarrow> int \<Rightarrow> DownloaderGUI
    \<Rightarrow> exn option \<times> DownloadItem \<times> int \<times> DownloaderGUI" where
  "attempt env T item n g =
     (let item1 = item\<lparr>status := DOWNLOADING, start_time := Some (time_time env (calls g))\<rparr>;
          g1 = put (Log (Downloading (filename item)) Info) (put Update_queue g)
      in case refresh_session env T n g1 of
           (Some e, n1, g2) \<Rightarrow> (Some e, item1, n1, g2)
         | (None, n1, g2) \<Rightarrow>
             (let r = click_download_button env (calls g2) (driver g2) (url item);
                  g3 = called [Click (driver g2) (url item)] g2
              in case r of
                   Inl e \<Rightarrow> (Some e, item1, n1, g3)
                 | Inr result \<Rightarrow>
                     (let (item2, n2, g4) =
                            (if result then completed_branch env item1 n1 g3
                             else (let (i, g') = failed_branch item1 g3 in (i, n1, g')));
                          (item3, g5) = finish_item env item2 g4
                      in (None, item3, n2, called [Sleep 2] g5))))"

definition iteration :: "cli \<Rightarrow> int \<Rightarrow> nat \<Rightarrow> nat \<Rightarrow> DownloadItem \<Rightarrow> int \<Rightarrow> DownloaderGUI
    \<Rightarrow> exn option \<times> DownloadItem \<times> int \<times> DownloaderGUI" where
  "iteration env T idx len item n g =
     (let g1 = put (Progress idx len)
                 (put (Status (Processing (idx + 1) len (filename item))) g)
      in case check_file_exists env (calls g1) (url item) of
           None \<Rightarrow> attempt env T item n g1
         | Some existing \<Rightarrow>
             if existing \<noteq> [] \<and> \<not> endswith_any existing temp_suffixes
             then (let (item', g') = skip_branch env existing item g1 in (None, item', n, g'))
             else attempt env T item n g1)"

subsection \<open>The loop body of \<open>richer_gui.py\<close>\<close>

text \<open>Here the session is refreshed before the task is marked as downloading.\<close>

definition richer_attempt :: "cli \<Rightarrow> int \<Rightarrow> nat \<Rightarrow> nat \<Rightarrow> DownloadItem \<Rightarrow> int \<Rightarrow> DownloaderGUI
    \<Rightarrow> exn option \<times> DownloadItem \<times> int \<times> DownloaderGUI" where
  "richer_attempt env T idx len item n g =
     (case refresh_session env T n g of
        (Some e, n1, g1) \<Rightarrow> (Some e, item, n1, g1)
      | (None, n1, g1) \<Rightarrow>
          (let item1 = item\<lparr>status := DOWNLOADING,
                             start_time := Some (time_time env (calls g1))\<rparr>;
               g2 = put Update_queue (put (Status (Downloading (filename item))) g1);
               r = click_download_button env (calls g2) (driver g2) (url item);
               g3 = called [Click (driver g2) (url item)] g2
           in case r of
                Inl e \<Rightarrow> (Some e, item1, n1, g3)
              | Inr result \<Rightarrow>
                  (case (if result then richer_completed_branch env item1 n1 g3
                         else (let (i, g') = richer_failed_branch item1 g3
                               in (None, i, n1, g'))) of
                     (Some e, item2, n2, g4) \<Rightarrow> (Some e, item2, n2, g4)
                   | (None, item2, n2, g4) \<Rightarrow>
                       (let (item3, g5) = finish_item env item2 g4
                        in (None, item3, n2, put (Progress (idx + 1) len) g5)))))"

definition richer_iteration :: "cli \<Rightarrow> int \<Rightarrow> nat \<Rightarrow> nat \<Rightarrow> DownloadItem \<Rightarrow> int \<Rightarrow> DownloaderGUI
    \<Rightarrow> exn option \<times> DownloadItem \<times> int \<times> DownloaderGUI" where
  "richer_iteration env T idx len item n g =
     (case check_file_exists env (calls g) (url item) of
        None \<Rightarrow> richer_attempt env T idx len item n g
      | Some existing \<Rightarrow>
          if existing \<noteq> [] \<and> \<not> endswith_any existing richer_skip_suffixes
          then (let (item', g') = richer_skip_branch env idx len existing item g
                in (None, item', n, g'))
          else richer_attempt env T idx len item n g)"

subsection \<open>The loop, and the worker around it\<close>

text \<open>
  \<open>for idx, item in enumerate(self.download_items)\<close>. The tasks are objects changed in
  place and the list itself is not changed during a run: \<open>visited\<close> are the tasks already
  processed (so \<open>idx = length visited\<close>), the third list those still to visit. The loop is the
  same in both files; \<open>body\<close> is the loop body of one of them. It ends when the list is
  exhausted, at \<open>break\<close> when \<open>is_downloading\<close> is false, or with the exception that
  left the body.
\<close>

type_synonym loop_body =
  "nat \<Rightarrow> nat \<Rightarrow> DownloadItem \<Rightarrow> int \<Rightarrow> DownloaderGUI
     \<Rightarrow> exn option \<times> DownloadItem \<times> int \<times> DownloaderGUI"

fun for_loop :: "loop_body \<Rightarrow> (nat \<Rightarrow> signal option) \<Rightarrow> nat \<Rightarrow> DownloadItem list
    \<Rightarrow> DownloadItem list \<Rightarrow> int \<Rightarrow> DownloaderGUI
    \<Rightarrow> exn option \<times> DownloadItem list \<times> int \<times> DownloaderGUI" where
  "for_loop body sigs len visited [] n g = (None, visited, n, g)"
| "for_loop body sigs len visited (item # rest) n g =
     (if \<not> is_downloading g then (None, visited @ item # rest, n, g)
      else (case body (length visited) len item n g of
              (Some e, item', n', g') \<Rightarrow> (Some e, visited @ item' # rest, n', g')
            | (None, item', n', g') \<Rightarrow>
                for_loop body sigs len (visited @ [item']) rest n'
                  (deliver (sigs (length visited)) g')))"

text \<open>The \<open>finally:\<close> block.\<close>

definition worker_finally :: "DownloaderGUI \<Rightarrow> DownloaderGUI" where
  "worker_finally g =
     put Download_complete (case driver g of None \<Rightarrow> g | Some d \<Rightarrow> called [Quit d] g)"

text \<open>
  The \<open>try: ... except Exception as e: ... finally: ...\<close> statement. \<open>body T\<close> is the loop
  body with the threshold read before the loop, \<open>errmsg\<close> the text of the line logged by
  the handler.
\<close>

definition worker_try :: "(int \<Rightarrow> loop_body) \<Rightarrow> (exn \<Rightarrow> message) \<Rightarrow> cli
    \<Rightarrow> (nat \<Rightarrow> signal option) \<Rightarrow> DownloaderGUI \<Rightarrow> DownloaderGUI" where
  "worker_try body errmsg env sigs g =
     (let r = setup_driver env (calls g);
          g1 = called [Setup_driver r] g
      in case r of
           Inl e \<Rightarrow> worker_finally (put (Log (errmsg e) Error) g1)
         | Inr d \<Rightarrow>
             (let g2 = g1\<lparr>driver := Some d\<rparr>;
                  items = download_items g2
              in case for_loop (body (session_refresh_var g2)) sigs (length items) [] items 0 g2 of
                   (exc, items', n, g3) \<Rightarrow>
                     (let g4 = g3\<lparr>download_items := items'\<rparr>
                      in worker_finally
                           (case exc of None \<Rightarrow> g4
                            | Some e \<Rightarrow> put (Log (errmsg e) Error) g4))))"

text \<open>
  The lines before \<open>try\<close>: the output directory is created and, when the box is ticked,
  temporary files are removed (\<open>os.remove\<close> inside \<open>try ... except: pass\<close>). An exception
  of \<open>mkdir\<close> or \<open>os.listdir\<close> is raised outside the \<open>try\<close> statement.
\<close>

definition worker_prelude :: "cli \<Rightarrow> DownloaderGUI \<Rightarrow> exn + DownloaderGUI" where
  "worker_prelude env g =
     (case mkdir env (calls g) of
        Some e \<Rightarrow> Inl e
      | None \<Rightarrow>
          (let g1 = called [Mkdir] g
           in if clean_cr_var g1 then
                (let g2 = put (Log Cleaning_temporary_files Info) g1
                 in case listdir env (calls g2) of
                      Inl e \<Rightarrow> Inl e
                    | Inr files \<Rightarrow>
                        Inr (called (map Remove
                               (filter (\<lambda>f. endswith_any f temp_suffixes) files)) g2))
              else Inr g1))"

text \<open>
  \<open>download_worker\<close> of \<open>repack.py\<close> and of \<open>richer_gui.py\<close>. \<open>Inl e\<close>: the thread died
  with \<open>e\<close> before the \<open>try\<close> statement.
\<close>

definition download_worker :: "cli \<Rightarrow> (nat \<Rightarrow> signal option) \<Rightarrow> DownloaderGUI
    \<Rightarrow> exn + DownloaderGUI" where
  "download_worker env sigs g =
     (case worker_prelude env g of
        Inl e \<Rightarrow> Inl e
      | Inr g1 \<Rightarrow> Inr (worker_try (iteration env) Error_msg env sigs g1))"

definition richer_download_worker :: "cli \<Rightarrow> (nat \<Rightarrow> signal option) \<Rightarrow> DownloaderGUI
    \<Rightarrow> exn + DownloaderGUI" where
  "richer_download_worker env sigs g =
     (case worker_prelude env g of
        Inl e \<Rightarrow> Inl e
      | Inr g1 \<Rightarrow> Inr (worker_try (richer_iteration env) Critical_error env sigs g1))"





subsection \<open>A concrete setting for running the model\<close>

text \<open>
  Collaborators for test runs. Every session gets a new handle; the task \<open>raise\<close> makes
  \<open>click_download_button\<close> raise and \<open>fail\<close> makes it return \<open>False\<close>; \<open>have\<close> is
  on disk before the run, \<open>tmp\<close> has left a file ending in \<open>.tmp\<close>, \<open>lost\<close> never shows
  up on disk, any other task shows up once it has been clicked; \<open>bad.rar\<close> cannot be read.
\<close>

definition clicked :: "string \<Rightarrow> call list \<Rightarrow> bool" where
  "clicked u h = list_ex (\<lambda>c. case c of Click d v \<Rightarrow> v = u | _ \<Rightarrow> False) h"

definition demo_cli :: cli where
  "demo_cli =
     \<lparr>setup_driver = (\<lambda>h. Inr (length h)),
      click_download_button =
        (\<lambda>h d u. if u = ''raise'' then Inl ''TimeoutException'' else Inr (u \<noteq> ''fail'')),
      check_file_exists =
        (\<lambda>h u. if u = ''have'' then Some ''have.rar''
                else if u = ''tmp'' then Some ''x.tmp''
                else if u = ''lost'' then None
                else if clicked u h then Some (u @ ''.rar'') else None),
      get_filename_from_url = (\<lambda>u. None),
      mkdir = (\<lambda>h. None),
      listdir = (\<lambda>h. Inr []),
      getsize = (\<lambda>h p. Some 2097152),
      read_file = (\<lambda>h p. if p = ''bad.rar'' then Inl ''PermissionError'' else Inr [1, 2, 3]),
      sha256 = (\<lambda>bs. ''digest''),
      time_time = length\<rparr>"

text \<open>The state before a run, with an empty queue, and the state at the top of the loop.\<close>

definition demo_gui :: DownloaderGUI where
  "demo_gui =
     \<lparr>download_items = [], is_downloading = True, driver = None, gui_queue = [],
      log_text = [], checksum_var = True, clean_cr_var = False, session_refresh_var = 2,
      calls = []\<rparr>"

definition demo_running :: DownloaderGUI where
  "demo_running = demo_gui\<lparr>driver := Some 1, calls := [Mkdir, Setup_driver (Inr 1)]\<rparr>"

definition demo_item :: "string \<Rightarrow> DownloadItem" where
  "demo_item u = DownloadItem_init demo_cli u"

definition demo_queue :: "string list \<Rightarrow> DownloaderGUI" where
  "demo_queue us = process_loaded_urls demo_cli us demo_gui"

definition no_signal :: "nat \<Rightarrow> signal option" where
  "no_signal i = None"

definition stop_during_first :: "nat \<Rightarrow> signal option" where
  "stop_during_first i = (if i = 0 then Some Stop else None)"



text \<open>What a run of the worker leaves behind (nothing, if the thread died before \<open>try\<close>).\<close>

definition final_items :: "exn + DownloaderGUI \<Rightarrow> DownloadItem list" where
  "final_items r = (case r of Inl e \<Rightarrow> [] | Inr g \<Rightarrow> download_items g)"

definition final_calls :: "exn + DownloaderGUI \<Rightarrow> call list" where
  "final_calls r = (case r of Inl e \<Rightarrow> [] | Inr g \<Rightarrow> calls g)"

definition final_queue :: "exn + DownloaderGUI \<Rightarrow> event list" where
  "final_queue r = (case r of Inl e \<Rightarrow> [] | Inr g \<Rightarrow> gui_queue g)"

section \<open>Properties\<close>

subsection \<open>Loading removes duplicates\<close>

lemma fromkeys_acc_first_occurrences:
  "fromkeys_acc keys us = keys @ first_occurrences (filter (\<lambda>u. u \<notin> set keys) us)"
proof (induction us arbitrary: keys)
  case Nil
  show ?case by simp
next
  case (Cons u us)
  show ?case
  proof (cases "u \<in> set keys")
    case True
    then show ?thesis using Cons.IH [of keys] by simp
  next
    case False
    have "filter (\<lambda>x. x \<notin> set (keys @ [u])) us
        = filter (\<lambda>y. y \<noteq> u) (filter (\<lambda>x. x \<notin> set keys) us)"
      by (induction us) auto
    then show ?thesis using False Cons.IH [of "keys @ [u]"] by simp
  qed
qed

lemma dict_fromkeys_first_occurrences: "dict_fromkeys us = first_occurrences us"
  by (simp add: dict_fromkeys_def fromkeys_acc_first_occurrences)

lemma set_first_occurrences: "set (first_occurrences xs) = set xs"
  by (induction xs rule: first_occurrences.induct) auto

lemma distinct_first_occurrences: "distinct (first_occurrences xs)"
  by (induction xs rule: first_occurrences.induct) (auto simp: set_first_occurrences)

lemma url_DownloadItem_init: "url (DownloadItem_init env u) = u"
  by (simp add: DownloadItem_init_def)

lemma status_DownloadItem_init: "status (DownloadItem_init env u) = PENDING"
  by (simp add: DownloadItem_init_def)

text \<open>
  C8. Whatever the input list, the queue built by \<open>process_loaded_urls\<close>
  (\<open>richer_gui.py\<close>) holds one task per distinct identity, in the order of first
  occurrence, and every task is \<open>PENDING\<close>; \<open>load_urls\<close> (\<open>repack.py\<close>) builds the same
  queue from every non-empty list, so from every list with a duplicate.
\<close>

theorem load_removes_duplicates:
  "map url (download_items (process_loaded_urls env urls g)) = first_occurrences urls
   \<and> distinct (map url (download_items (process_loaded_urls env urls g)))
   \<and> set (map url (download_items (process_loaded_urls env urls g))) = set urls
   \<and> list_all (\<lambda>item. status item = PENDING) (download_items (process_loaded_urls env urls g))
   \<and> (urls \<noteq> [] \<longrightarrow>
        download_items (load_urls env urls g) = download_items (process_loaded_urls env urls g))"
proof -
  have m: "map url (download_items (process_loaded_urls env urls g)) = first_occurrences urls"
    by (simp add: process_loaded_urls_def dict_fromkeys_first_occurrences comp_def
        url_DownloadItem_init)
  have p: "list_all (\<lambda>item. status item = PENDING)
             (download_items (process_loaded_urls env urls g))"
    by (simp add: process_loaded_urls_def list_all_iff status_DownloadItem_init)
  have l: "urls \<noteq> [] \<longrightarrow>
        download_items (load_urls env urls g) = download_items (process_loaded_urls env urls g)"
    by (simp add: load_urls_def process_loaded_urls_def)
  show ?thesis
    using m p l by (simp add: set_first_occurrences distinct_first_occurrences)
qed

theorem load_removes_duplicates_witness:
  "[''a'', ''b'', ''a'', ''c'', ''b''] \<noteq> []
   \<and> map url (download_items (load_urls demo_cli [''a'', ''b'', ''a'', ''c'', ''b''] demo_gui))
       = [''a'', ''b'', ''c'']
   \<and> map status (download_items (load_urls demo_cli [''a'', ''b'', ''a'', ''c'', ''b''] demo_gui))
       = [PENDING, PENDING, PENDING]"
  using load_removes_duplicates [of demo_cli "[''a'', ''b'', ''a'', ''c'', ''b'']" demo_gui]
  by (simp add: load_urls_def process_loaded_urls_def dict_fromkeys_def DownloadItem_init_def)

subsection \<open>Facts about the loop and its body\<close>




lemma for_loop_shape:
  "for_loop body sigs len visited rest n g = (exc, items', n', g')
   \<Longrightarrow> take (length visited) items' = visited \<and> length items' = length visited + length rest"
proof (induction rest arbitrary: visited n g)
  case Nil
  then show ?case by simp
next
  case (Cons item rest)
  show ?case
  proof (cases "is_downloading g")
    case False
    with Cons.prems show ?thesis by auto
  next
    case True
    obtain e item1 n1 g1 where b: "body (length visited) len item n g = (e, item1, n1, g1)"
      by (metis prod_cases4)
    show ?thesis
    proof (cases e)
      case (Some x)
      with Cons.prems True b show ?thesis by auto
    next
      case None
      with Cons.prems True b
      have "for_loop body sigs len (visited @ [item1]) rest n1 (deliver (sigs (length visited)) g1)
            = (exc, items', n', g')" by simp
      from Cons.IH [OF this]
      have t: "take (Suc (length visited)) items' = visited @ [item1]"
        and l: "length items' = Suc (length visited) + length rest" by simp_all
      have "take (length visited) (take (Suc (length visited)) items') = visited"
        unfolding t by simp
      then show ?thesis using l by (simp add: min_def)
    qed
  qed
qed


lemma for_loop_current:
  assumes "is_downloading g"
    and "body (length visited) len item n g = (e, item1, n1, g1)"
    and "for_loop body sigs len visited (item # rest) n g = (exc, items', n', g')"
  shows "items' ! length visited = item1"
proof (cases e)
  case (Some x)
  with assms show ?thesis by auto
next
  case None
  with assms
  have "for_loop body sigs len (visited @ [item1]) rest n1 (deliver (sigs (length visited)) g1)
        = (exc, items', n', g')" by simp
  from for_loop_shape [OF this]
  have t: "take (Suc (length visited)) items' = visited @ [item1]"
    and l: "length items' = Suc (length visited) + length rest" by simp_all
  have "items' ! length visited = take (Suc (length visited)) items' ! length visited" by simp
  then show ?thesis unfolding t by simp
qed

lemma for_loop_raise:
  "is_downloading g \<Longrightarrow> body (length visited) len item n g = (Some e, item1, n1, g1)
   \<Longrightarrow> for_loop body sigs len visited (item # rest) n g = (Some e, visited @ item1 # rest, n1, g1)"
  by simp




lemma attempt_raise:
  assumes "refresh_session env T n (put (Log (Downloading (filename item)) Info) (put Update_queue g))
           = (None, n1, g2)"
    and "click_download_button env (calls g2) (driver g2) (url item) = Inl e"
  shows "attempt env T item n g =
     (Some e, item\<lparr>status := DOWNLOADING, start_time := Some (time_time env (calls g))\<rparr>, n1,
      called [Click (driver g2) (url item)] g2)"
  using assms by (simp add: attempt_def)

lemma richer_attempt_raise:
  assumes "refresh_session env T n g = (None, n1, g2)"
    and "click_download_button env (calls g2) (driver g2) (url item) = Inl e"
  shows "richer_attempt env T idx len item n g =
     (Some e, item\<lparr>status := DOWNLOADING, start_time := Some (time_time env (calls g2))\<rparr>, n1,
      called [Click (driver g2) (url item)]
        (put Update_queue (put (Status (Downloading (filename item))) g2)))"
  using assms by (simp add: richer_attempt_def put_def called_def)

lemma worker_try_raise:
  assumes "setup_driver env (calls g) = Inr d"
    and "for_loop (body (session_refresh_var g)) sigs (length (download_items g)) []
           (download_items g) 0
           (g\<lparr>calls := calls g @ [Setup_driver (Inr d)], driver := Some d\<rparr>)
         = (Some e, items', n', g3)"
  shows "worker_try body errmsg env sigs g =
     worker_finally (put (Log (errmsg e) Error) (g3\<lparr>download_items := items'\<rparr>))"
  using assms by (simp add: worker_try_def called_def Let_def)


lemmas demo_defs = demo_cli_def demo_gui_def demo_running_def demo_item_def demo_queue_def
  no_signal_def stop_during_first_def clicked_def final_items_def final_calls_def final_queue_def
  process_loaded_urls_def dict_fromkeys_def DownloadItem_init_def

lemmas worker_defs = download_worker_def richer_download_worker_def worker_prelude_def
  worker_try_def worker_finally_def iteration_def richer_iteration_def attempt_def
  richer_attempt_def refresh_session_def skip_branch_def richer_skip_branch_def
  completed_branch_def richer_completed_branch_def failed_branch_def richer_failed_branch_def
  finish_item_def verify_checksum_def calculate_checksum_def put_def called_def deliver_def
  stop_downloads_def pause_downloads_def endswith_any_def endswith_def temp_suffixes_def
  richer_skip_suffixes_def megabytes_def

subsection \<open>An exception of the download call\<close>

text \<open>
  C1, as stated, fails. With the queue \<open>[raise, a]\<close>, where \<open>click_download_button\<close>
  raises for the first task, the first task is left \<open>DOWNLOADING\<close> with no failure detail
  and the second is never started, in both files.
\<close>

theorem download_exception_counterexample:
  "map status (final_items (download_worker demo_cli no_signal (demo_queue [''raise'', ''a''])))
     = [DOWNLOADING, PENDING]
   \<and> map error (final_items (download_worker demo_cli no_signal (demo_queue [''raise'', ''a''])))
     = [None, None]
   \<and> map status (final_items (richer_download_worker demo_cli no_signal (demo_queue [''raise'', ''a''])))
     = [DOWNLOADING, PENDING]"
  by (simp add: demo_defs worker_defs)

text \<open>
  C1, amended. When \<open>click_download_button\<close> raises, the exception leaves the loop body
  with the task marked \<open>DOWNLOADING\<close> (no failure detail, no end timestamp written); the
  loop ends there with the tasks after it untouched; the handler of the \<open>try\<close> statement
  logs one error line, and the \<open>finally\<close> block runs.
\<close>

theorem download_exception_ends_run:
  "(refresh_session env T n (put (Log (Downloading (filename item)) Info) (put Update_queue g))
        = (None, m, gr)
      \<longrightarrow> click_download_button env (calls gr) (driver gr) (url item) = Inl e
      \<longrightarrow> attempt env T item n g =
           (Some e, item\<lparr>status := DOWNLOADING, start_time := Some (time_time env (calls g))\<rparr>,
            m, called [Click (driver gr) (url item)] gr))
   \<and> (refresh_session env T n g = (None, m, gr)
      \<longrightarrow> click_download_button env (calls gr) (driver gr) (url item) = Inl e
      \<longrightarrow> richer_attempt env T idx len item n g =
           (Some e, item\<lparr>status := DOWNLOADING, start_time := Some (time_time env (calls gr))\<rparr>,
            m, called [Click (driver gr) (url item)]
                  (put Update_queue (put (Status (Downloading (filename item))) gr))))
   \<and> (is_downloading g \<longrightarrow> body (length visited) len item n g = (Some e, itm, k, gs)
      \<longrightarrow> for_loop body sigs len visited (item # rest) n g
           = (Some e, visited @ itm # rest, k, gs))
   \<and> (setup_driver env (calls g) = Inr d
      \<longrightarrow> for_loop (wbody (session_refresh_var g)) sigs (length (download_items g)) []
            (download_items g) 0
            (g\<lparr>calls := calls g @ [Setup_driver (Inr d)], driver := Some d\<rparr>)
          = (Some e, items', k, gl)
      \<longrightarrow> worker_try wbody errmsg env sigs g =
           worker_finally (put (Log (errmsg e) Error) (gl\<lparr>download_items := items'\<rparr>)))"
  using attempt_raise [of env T n item g m gr e]
    richer_attempt_raise [of env T n g m gr item e idx len]
    for_loop_raise [of g body visited len item n e itm k gs sigs rest]
    worker_try_raise [of env g d wbody sigs e items' k gl errmsg]
  by blast


theorem download_exception_ends_run_witness:
  "refresh_session demo_cli 2 0 demo_running = (None, 0, demo_running)
   \<and> click_download_button demo_cli (calls demo_running) (driver demo_running)
         (url (demo_item ''raise'')) = Inl ''TimeoutException''
   \<and> fst (attempt demo_cli 2 (demo_item ''raise'') 0 demo_running) = Some ''TimeoutException''
   \<and> fst (richer_attempt demo_cli 2 0 2 (demo_item ''raise'') 0 demo_running)
        = Some ''TimeoutException''
   \<and> is_downloading demo_running
   \<and> fst (for_loop (iteration demo_cli 2) no_signal 2 [] [demo_item ''raise'', demo_item ''a'']
             0 demo_running) = Some ''TimeoutException''
   \<and> setup_driver demo_cli (calls (demo_queue [''raise'', ''a''])) = Inr 0
   \<and> gui_queue (worker_try (iteration demo_cli) Error_msg demo_cli no_signal
                   (demo_queue [''raise'', ''a'']))
        = [Status (Processing 1 2 ''raise''), Progress 0 2, Update_queue,
           Log (Downloading ''raise'') Info, Log (Error_msg ''TimeoutException'') Error,
           Download_complete]"
  using download_exception_ends_run [where env = demo_cli and T = 2 and n = 0
      and item = "demo_item ''raise''" and g = demo_running and m = 0
      and gr = "put (Log (Downloading (filename (demo_item ''raise''))) Info)
                  (put Update_queue demo_running)"
      and e = "''TimeoutException''"]
    download_exception_ends_run [where env = demo_cli and T = 2 and n = 0
      and item = "demo_item ''raise''" and g = demo_running and m = 0
      and gr = demo_running and e = "''TimeoutException''" and idx = 0 and len = 2
      and body = "iteration demo_cli 2" and visited = "[]" and sigs = no_signal
      and rest = "[demo_item ''a'']"]
    download_exception_ends_run [where env = demo_cli and g = "demo_queue [''raise'', ''a'']"
      and d = 0 and wbody = "iteration demo_cli" and sigs = no_signal
      and e = "''TimeoutException''" and errmsg = Error_msg]
  by (simp add: demo_defs worker_defs)


subsection \<open>A task whose file exists\<close>



lemma completed_branch_facts:
  "completed_branch env item n g = (item', n', g')
   \<Longrightarrow> n' = n + 1 \<and> status item' = COMPLETED \<and> calls g' = calls g \<and> driver g' = driver g
       \<and> end_time item' = end_time item \<and> error item' = error item
       \<and> start_time item' = start_time item"
  by (auto simp: completed_branch_def verify_checksum_def calculate_checksum_def put_def Let_def
      split: option.splits if_splits sum.splits prod.splits)

lemma richer_completed_branch_facts:
  "richer_completed_branch env item n g = (exc, item', n', g')
   \<Longrightarrow> n' = n + 1 \<and> status item' = COMPLETED \<and> calls g' = calls g \<and> driver g' = driver g
       \<and> end_time item' = end_time item \<and> error item' = error item
       \<and> start_time item' = start_time item"
  by (auto simp: richer_completed_branch_def verify_checksum_def calculate_checksum_def put_def
      Let_def split: option.splits if_splits sum.splits prod.splits)









lemma iteration_cases:
  "iteration env T idx len item n g =
     attempt env T item n
       (put (Progress idx len) (put (Status (Processing (idx + 1) len (filename item))) g))
   \<or> (\<exists>item' g'. iteration env T idx len item n g = (None, item', n, g')
          \<and> status item' = SKIPPED \<and> calls g' = calls g \<and> driver g' = driver g
          \<and> end_time item' = end_time item \<and> start_time item' = start_time item)"
  by (auto simp: iteration_def skip_branch_def put_def Let_def split: option.splits)

lemma richer_iteration_cases:
  "richer_iteration env T idx len item n g = richer_attempt env T idx len item n g
   \<or> (\<exists>item' g'. richer_iteration env T idx len item n g = (None, item', n, g')
          \<and> status item' = SKIPPED \<and> calls g' = calls g \<and> driver g' = driver g
          \<and> end_time item' = end_time item \<and> start_time item' = start_time item)"
  by (auto simp: richer_iteration_def richer_skip_branch_def skip_branch_def put_def Let_def
      split: option.splits)



































subsection \<open>Recycling the session\<close>




lemma completed_branch_checksum_error:
  assumes "check_file_exists env (calls g) (url item) = Some name" and "name \<noteq> []"
    and "getsize env (calls g) name = Some b" and "checksum_var g"
    and "read_file env (calls g) name = Inl e"
  shows "completed_branch env item n g =
     (item\<lparr>status := COMPLETED, size_mb := megabytes b, checksum := None\<rparr>, n + 1,
      g\<lparr>gui_queue := gui_queue g @ [Log (Verifying_checksum name) Info,
             Log (Completed_msg (filename item) (megabytes b)) Success],
        log_text := log_text g @ [(Checksum_error e, Error)]\<rparr>)"
    and "richer_completed_branch env item n g =
     (None, item\<lparr>status := COMPLETED, size_mb := megabytes b, checksum := None\<rparr>, n + 1,
      g\<lparr>gui_queue := gui_queue g @ [Log (Verifying_checksum name) Info,
             Log (Success_msg (filename item)) Success],
        log_text := log_text g @ [(Checksum_error e, Error)]\<rparr>)"
  using assms
  by (simp_all add: completed_branch_def richer_completed_branch_def verify_checksum_def
      calculate_checksum_def put_def)

lemma attempt_checksum_error:
  assumes "refresh_session env T n (put (Log (Downloading (filename item)) Info) (put Update_queue g))
           = (None, m, gr)"
    and "click_download_button env (calls gr) (driver gr) (url item) = Inr True"
    and "check_file_exists env (calls gr @ [Click (driver gr) (url item)]) (url item) = Some name"
    and "name \<noteq> []"
    and "getsize env (calls gr @ [Click (driver gr) (url item)]) name = Some b"
    and "checksum_var gr"
    and "read_file env (calls gr @ [Click (driver gr) (url item)]) name = Inl e"
  shows "(case attempt env T item n g of
            (exc, item', n', g') \<Rightarrow>
              exc = None \<and> status item' = COMPLETED \<and> checksum item' = None
              \<and> error item' = error item \<and> end_time item' \<noteq> None
              \<and> log_text g' = log_text gr @ [(Checksum_error e, Error)])"
proof -
  let ?i = "item\<lparr>status := DOWNLOADING, start_time := Some (time_time env (calls g))\<rparr>"
  let ?g = "called [Click (driver gr) (url item)] gr"
  have "completed_branch env ?i m ?g =
     (?i\<lparr>status := COMPLETED, size_mb := megabytes b, checksum := None\<rparr>, m + 1,
      ?g\<lparr>gui_queue := gui_queue ?g @ [Log (Verifying_checksum name) Info,
             Log (Completed_msg (filename ?i) (megabytes b)) Success],
        log_text := log_text ?g @ [(Checksum_error e, Error)]\<rparr>)"
    using assms(3-7) by (intro completed_branch_checksum_error) (simp_all add: called_def)
  then show ?thesis
    using assms(1,2) by (simp add: attempt_def finish_item_def put_def called_def)
qed

lemma richer_attempt_checksum_error:
  assumes "refresh_session env T n g = (None, m, gr)"
    and "click_download_button env (calls gr) (driver gr) (url item) = Inr True"
    and "check_file_exists env (calls gr @ [Click (driver gr) (url item)]) (url item) = Some name"
    and "name \<noteq> []"
    and "getsize env (calls gr @ [Click (driver gr) (url item)]) name = Some b"
    and "checksum_var gr"
    and "read_file env (calls gr @ [Click (driver gr) (url item)]) name = Inl e"
  shows "(case richer_attempt env T idx len item n g of
            (exc, item', n', g') \<Rightarrow>
              exc = None \<and> status item' = COMPLETED \<and> checksum item' = None
              \<and> error item' = error item \<and> end_time item' \<noteq> None
              \<and> log_text g' = log_text gr @ [(Checksum_error e, Error)])"
proof -
  let ?i = "item\<lparr>status := DOWNLOADING, start_time := Some (time_time env (calls gr))\<rparr>"
  let ?g = "called [Click (driver gr) (url item)]
              (put Update_queue (put (Status (Downloading (filename item))) gr))"
  have "richer_completed_branch env ?i m ?g =
     (None, ?i\<lparr>status := COMPLETED, size_mb := megabytes b, checksum := None\<rparr>, m + 1,
      ?g\<lparr>gui_queue := gui_queue ?g @ [Log (Verifying_checksum name) Info,
             Log (Success_msg (filename ?i)) Success],
        log_text := log_text ?g @ [(Checksum_error e, Error)]\<rparr>)"
    using assms(3-7)
    by (intro completed_branch_checksum_error) (simp_all add: called_def put_def)
  then show ?thesis
    using assms(1,2) by (simp add: richer_attempt_def finish_item_def put_def called_def)
qed

lemma completed_branch_no_file:
  assumes "check_file_exists env (calls g) (url item) = None
           \<or> check_file_exists env (calls g) (url item) = Some []"
  shows "completed_branch env item n g =
     (item\<lparr>status := COMPLETED\<rparr>, n + 1,
      put (Log (Completed_msg (filename item) (size_mb item)) Success) g)"
    and "richer_completed_branch env item n g = (None, item\<lparr>status := COMPLETED\<rparr>, n + 1, g)"
  using assms
  by (auto simp: completed_branch_def richer_completed_branch_def)

lemma attempt_no_file:
  assumes "refresh_session env T n (put (Log (Downloading (filename item)) Info) (put Update_queue g))
           = (None, m, gr)"
    and "click_download_button env (calls gr) (driver gr) (url item) = Inr True"
    and "check_file_exists env (calls gr @ [Click (driver gr) (url item)]) (url item) = None
         \<or> check_file_exists env (calls gr @ [Click (driver gr) (url item)]) (url item) = Some []"
  shows "(case attempt env T item n g of
            (exc, item', n', g') \<Rightarrow>
              exc = None \<and> status item' = COMPLETED \<and> size_mb item' = size_mb item
              \<and> checksum item' = checksum item \<and> error item' = error item)"
proof -
  let ?i = "item\<lparr>status := DOWNLOADING, start_time := Some (time_time env (calls g))\<rparr>"
  let ?g = "called [Click (driver gr) (url item)] gr"
  have "completed_branch env ?i m ?g =
     (?i\<lparr>status := COMPLETED\<rparr>, m + 1,
      put (Log (Completed_msg (filename ?i) (size_mb ?i)) Success) ?g)"
    using assms(3) by (intro completed_branch_no_file) (simp add: called_def)
  then show ?thesis
    using assms(1,2) by (simp add: attempt_def finish_item_def put_def called_def)
qed

lemma richer_attempt_no_file:
  assumes "refresh_session env T n g = (None, m, gr)"
    and "click_download_button env (calls gr) (driver gr) (url item) = Inr True"
    and "check_file_exists env (calls gr @ [Click (driver gr) (url item)]) (url item) = None
         \<or> check_file_exists env (calls gr @ [Click (driver gr) (url item)]) (url item) = Some []"
  shows "(case richer_attempt env T idx len item n g of
            (exc, item', n', g') \<Rightarrow>
              exc = None \<and> status item' = COMPLETED \<and> size_mb item' = size_mb item
              \<and> checksum item' = checksum item \<and> error item' = error item)"
proof -
  let ?i = "item\<lparr>status := DOWNLOADING, start_time := Some (time_time env (calls gr))\<rparr>"
  let ?g = "called [Click (driver gr) (url item)]
              (put Update_queue (put (Status (Downloading (filename item))) gr))"
  have "richer_completed_branch env ?i m ?g = (None, ?i\<lparr>status := COMPLETED\<rparr>, m + 1, ?g)"
    using assms(3) by (intro completed_branch_no_file) (simp add: called_def put_def)
  then show ?thesis
    using assms(1,2) by (simp add: richer_attempt_def finish_item_def put_def called_def)
qed

lemma attempt_finished:
  "attempt env T item n g = (None, item', n', g')
   \<Longrightarrow> (status item' = COMPLETED \<or> status item' = FAILED) \<and> end_time item' \<noteq> None"
  by (auto simp: attempt_def finish_item_def failed_branch_def Let_def
      split: prod.splits option.splits sum.splits if_splits dest: completed_branch_facts)

lemma richer_attempt_finished:
  "richer_attempt env T idx len item n g = (None, item', n', g')
   \<Longrightarrow> (status item' = COMPLETED \<or> status item' = FAILED) \<and> end_time item' \<noteq> None"
  by (auto simp: richer_attempt_def finish_item_def richer_failed_branch_def Let_def
      split: prod.splits option.splits sum.splits if_splits dest: richer_completed_branch_facts)


subsection \<open>An error while the checksum is computed\<close>

text \<open>
  C9. \<open>calculate_checksum\<close> catches the exception of the read, logs it and returns
  \<open>None\<close>. So when the download call returned \<open>True\<close>, the file found afterwards is on
  disk, checksums are enabled and reading the file raises, the body ends without an
  exception, the task is \<open>COMPLETED\<close> with \<open>checksum = None\<close> and no failure detail, and
  the error line is in the log. The task is not visited again, so it has that state when the
  loop ends. Both files.
\<close>

theorem checksum_error_keeps_completed:
  "(refresh_session env T n (put (Log (Downloading (filename item)) Info) (put Update_queue g))
        = (None, m, gr)
      \<longrightarrow> click_download_button env (calls gr) (driver gr) (url item) = Inr True
      \<longrightarrow> check_file_exists env (calls gr @ [Click (driver gr) (url item)]) (url item) = Some name
      \<longrightarrow> name \<noteq> []
      \<longrightarrow> getsize env (calls gr @ [Click (driver gr) (url item)]) name = Some b
      \<longrightarrow> checksum_var gr
      \<longrightarrow> read_file env (calls gr @ [Click (driver gr) (url item)]) name = Inl e
      \<longrightarrow> (case attempt env T item n g of
             (exc, item', n', g') \<Rightarrow>
               exc = None \<and> status item' = COMPLETED \<and> checksum item' = None
               \<and> error item' = error item \<and> end_time item' \<noteq> None
               \<and> log_text g' = log_text gr @ [(Checksum_error e, Error)]))
   \<and> (refresh_session env T n g = (None, m, gr)
      \<longrightarrow> click_download_button env (calls gr) (driver gr) (url item) = Inr True
      \<longrightarrow> check_file_exists env (calls gr @ [Click (driver gr) (url item)]) (url item) = Some name
      \<longrightarrow> name \<noteq> []
      \<longrightarrow> getsize env (calls gr @ [Click (driver gr) (url item)]) name = Some b
      \<longrightarrow> checksum_var gr
      \<longrightarrow> read_file env (calls gr @ [Click (driver gr) (url item)]) name = Inl e
      \<longrightarrow> (case richer_attempt env T idx len item n g of
             (exc, item', n', g') \<Rightarrow>
               exc = None \<and> status item' = COMPLETED \<and> checksum item' = None
               \<and> error item' = error item \<and> end_time item' \<noteq> None
               \<and> log_text g' = log_text gr @ [(Checksum_error e, Error)]))
   \<and> (read_file env (calls g) p = Inl e
      \<longrightarrow> calculate_checksum env p g =
           (None, g\<lparr>log_text := log_text g @ [(Checksum_error e, Error)]\<rparr>))
   \<and> (is_downloading g \<longrightarrow> body (length visited) len item n g = (x, itm, k, gs)
      \<longrightarrow> for_loop body sigs len visited (item # rest) n g = (exc, items', n', g')
      \<longrightarrow> items' ! length visited = itm)"
proof -
  have c: "read_file env (calls g) p = Inl e
      \<longrightarrow> calculate_checksum env p g =
           (None, g\<lparr>log_text := log_text g @ [(Checksum_error e, Error)]\<rparr>)"
    by (simp add: calculate_checksum_def)
  show ?thesis
    apply (intro conjI)
       apply (intro impI, erule (6) attempt_checksum_error)
      apply (intro impI, erule (6) richer_attempt_checksum_error)
     apply (rule c)
    apply (intro impI, erule (2) for_loop_current)
    done
qed

theorem checksum_error_keeps_completed_witness:
  "refresh_session demo_cli 2 0 demo_running = (None, 0, demo_running)
   \<and> click_download_button demo_cli (calls demo_running) (driver demo_running)
         (url (demo_item ''bad'')) = Inr True
   \<and> check_file_exists demo_cli (calls demo_running @ [Click (driver demo_running)
         (url (demo_item ''bad''))]) (url (demo_item ''bad'')) = Some ''bad.rar''
   \<and> getsize demo_cli (calls demo_running @ [Click (driver demo_running)
         (url (demo_item ''bad''))]) ''bad.rar'' = Some 2097152
   \<and> checksum_var demo_running
   \<and> read_file demo_cli (calls demo_running @ [Click (driver demo_running)
         (url (demo_item ''bad''))]) ''bad.rar'' = Inl ''PermissionError''
   \<and> (case richer_attempt demo_cli 2 0 1 (demo_item ''bad'') 0 demo_running of
         (exc, item', n', g') \<Rightarrow>
           exc = None \<and> status item' = COMPLETED \<and> checksum item' = None
           \<and> error item' = None \<and> end_time item' \<noteq> None
           \<and> log_text g' = [(Checksum_error ''PermissionError'', Error)])
   \<and> (case attempt demo_cli 2 (demo_item ''bad'') 0 demo_running of
         (exc, item', n', g') \<Rightarrow>
           exc = None \<and> status item' = COMPLETED \<and> checksum item' = None
           \<and> error item' = None \<and> end_time item' \<noteq> None
           \<and> log_text g' = [(Checksum_error ''PermissionError'', Error)])
   \<and> calculate_checksum demo_cli ''bad.rar'' demo_running
       = (None, demo_running\<lparr>log_text := [(Checksum_error ''PermissionError'', Error)]\<rparr>)
   \<and> is_downloading demo_running"
proof -
  have r: "refresh_session demo_cli 2 0 demo_running = (None, 0, demo_running)"
    and rp: "refresh_session demo_cli 2 0
        (put (Log (Downloading (filename (demo_item ''bad''))) Info)
           (put Update_queue demo_running))
      = (None, 0, put (Log (Downloading (filename (demo_item ''bad''))) Info)
                    (put Update_queue demo_running))"
    by (simp_all add: refresh_session_def)
  have h: "click_download_button demo_cli (calls demo_running) (driver demo_running)
         (url (demo_item ''bad'')) = Inr True"
    "check_file_exists demo_cli (calls demo_running @ [Click (driver demo_running)
         (url (demo_item ''bad''))]) (url (demo_item ''bad'')) = Some ''bad.rar''"
    "getsize demo_cli (calls demo_running @ [Click (driver demo_running)
         (url (demo_item ''bad''))]) ''bad.rar'' = Some 2097152"
    "checksum_var demo_running"
    "read_file demo_cli (calls demo_running @ [Click (driver demo_running)
         (url (demo_item ''bad''))]) ''bad.rar'' = Inl ''PermissionError''"
    "is_downloading demo_running"
    by (simp_all add: demo_defs)
  have a: "(case richer_attempt demo_cli 2 0 1 (demo_item ''bad'') 0 demo_running of
         (exc, item', n', g') \<Rightarrow>
           exc = None \<and> status item' = COMPLETED \<and> checksum item' = None
           \<and> error item' = None \<and> end_time item' \<noteq> None
           \<and> log_text g' = [(Checksum_error ''PermissionError'', Error)])"
    using checksum_error_keeps_completed [where env = demo_cli and T = 2 and n = 0
        and g = demo_running and item = "demo_item ''bad''" and m = 0 and gr = demo_running
        and name = "''bad.rar''" and b = 2097152 and e = "''PermissionError''"
        and idx = 0 and len = 1, THEN conjunct2, THEN conjunct1] r h
    by (simp add: demo_item_def DownloadItem_init_def demo_running_def demo_gui_def)
  have b: "(case attempt demo_cli 2 (demo_item ''bad'') 0 demo_running of
         (exc, item', n', g') \<Rightarrow>
           exc = None \<and> status item' = COMPLETED \<and> checksum item' = None
           \<and> error item' = None \<and> end_time item' \<noteq> None
           \<and> log_text g' = [(Checksum_error ''PermissionError'', Error)])"
    using checksum_error_keeps_completed [where env = demo_cli and T = 2 and n = 0
        and g = demo_running and item = "demo_item ''bad''" and m = 0
        and gr = "put (Log (Downloading (filename (demo_item ''bad''))) Info)
                    (put Update_queue demo_running)"
        and name = "''bad.rar''" and b = 2097152 and e = "''PermissionError''",
        THEN conjunct1] rp h
    by (simp add: put_def demo_item_def DownloadItem_init_def demo_running_def demo_gui_def)
  have c: "calculate_checksum demo_cli ''bad.rar'' demo_running
       = (None, demo_running\<lparr>log_text := [(Checksum_error ''PermissionError'', Error)]\<rparr>)"
    using checksum_error_keeps_completed [where env = demo_cli and g = demo_running
        and p = "''bad.rar''" and e = "''PermissionError''",
        THEN conjunct2, THEN conjunct2, THEN conjunct1]
    by (simp add: demo_defs)
  show ?thesis using r h a b c by blast
qed


subsection \<open>A successful download whose file is not found\<close>

text \<open>
  C10. When the download call returned \<open>True\<close> and \<open>check_file_exists\<close> then finds no
  name (\<open>None\<close> or the empty string), the body ends without an exception and the task is
  \<open>COMPLETED\<close>; size, digest and failure detail are what they were, which for a task as
  loaded is 0, \<open>None\<close> and \<open>None\<close>. Both files.
\<close>

theorem missing_artifact_still_completed:
  "(refresh_session env T n (put (Log (Downloading (filename item)) Info) (put Update_queue g))
        = (None, m, gr)
      \<longrightarrow> click_download_button env (calls gr) (driver gr) (url item) = Inr True
      \<longrightarrow> (check_file_exists env (calls gr @ [Click (driver gr) (url item)]) (url item) = None
           \<or> check_file_exists env (calls gr @ [Click (driver gr) (url item)]) (url item)
               = Some [])
      \<longrightarrow> (case attempt env T item n g of
             (exc, item', n', g') \<Rightarrow>
               exc = None \<and> status item' = COMPLETED \<and> size_mb item' = size_mb item
               \<and> checksum item' = checksum item \<and> error item' = error item))
   \<and> (refresh_session env T n g = (None, m, gr)
      \<longrightarrow> click_download_button env (calls gr) (driver gr) (url item) = Inr True
      \<longrightarrow> (check_file_exists env (calls gr @ [Click (driver gr) (url item)]) (url item) = None
           \<or> check_file_exists env (calls gr @ [Click (driver gr) (url item)]) (url item)
               = Some [])
      \<longrightarrow> (case richer_attempt env T idx len item n g of
             (exc, item', n', g') \<Rightarrow>
               exc = None \<and> status item' = COMPLETED \<and> size_mb item' = size_mb item
               \<and> checksum item' = checksum item \<and> error item' = error item))
   \<and> size_mb (DownloadItem_init env u) = 0 \<and> checksum (DownloadItem_init env u) = None
   \<and> error (DownloadItem_init env u) = None"
  apply (intro conjI)
      apply (intro impI, erule (2) attempt_no_file)
     apply (intro impI, erule (2) richer_attempt_no_file)
    apply (simp_all add: DownloadItem_init_def)
  done

theorem missing_artifact_still_completed_witness:
  "refresh_session demo_cli 2 0 demo_running = (None, 0, demo_running)
   \<and> click_download_button demo_cli (calls demo_running) (driver demo_running)
         (url (demo_item ''lost'')) = Inr True
   \<and> check_file_exists demo_cli (calls demo_running @ [Click (driver demo_running)
         (url (demo_item ''lost''))]) (url (demo_item ''lost'')) = None
   \<and> (case richer_attempt demo_cli 2 0 1 (demo_item ''lost'') 0 demo_running of
         (exc, item', n', g') \<Rightarrow>
           exc = None \<and> status item' = COMPLETED \<and> size_mb item' = 0
           \<and> checksum item' = None \<and> error item' = None)
   \<and> (case attempt demo_cli 2 (demo_item ''lost'') 0 demo_running of
         (exc, item', n', g') \<Rightarrow>
           exc = None \<and> status item' = COMPLETED \<and> size_mb item' = 0
           \<and> checksum item' = None \<and> error item' = None)"
proof -
  have r: "refresh_session demo_cli 2 0 demo_running = (None, 0, demo_running)"
    and rp: "refresh_session demo_cli 2 0
        (put (Log (Downloading (filename (demo_item ''lost''))) Info)
           (put Update_queue demo_running))
      = (None, 0, put (Log (Downloading (filename (demo_item ''lost''))) Info)
                    (put Update_queue demo_running))"
    by (simp_all add: refresh_session_def)
  have h: "click_download_button demo_cli (calls demo_running) (driver demo_running)
         (url (demo_item ''lost'')) = Inr True"
    "check_file_exists demo_cli (calls demo_running @ [Click (driver demo_running)
         (url (demo_item ''lost''))]) (url (demo_item ''lost'')) = None"
    by (simp_all add: demo_defs)
  have a: "(case richer_attempt demo_cli 2 0 1 (demo_item ''lost'') 0 demo_running of
         (exc, item', n', g') \<Rightarrow>
           exc = None \<and> status item' = COMPLETED \<and> size_mb item' = 0
           \<and> checksum item' = None \<and> error item' = None)"
    using missing_artifact_still_completed [where env = demo_cli and T = 2 and n = 0
        and g = demo_running and item = "demo_item ''lost''" and m = 0 and gr = demo_running
        and idx = 0 and len = 1, THEN conjunct2, THEN conjunct1] r h
    by (simp add: demo_item_def DownloadItem_init_def)
  have b: "(case attempt demo_cli 2 (demo_item ''lost'') 0 demo_running of
         (exc, item', n', g') \<Rightarrow>
           exc = None \<and> status item' = COMPLETED \<and> size_mb item' = 0
           \<and> checksum item' = None \<and> error item' = None)"
    using missing_artifact_still_completed [where env = demo_cli and T = 2 and n = 0
        and g = demo_running and item = "demo_item ''lost''" and m = 0
        and gr = "put (Log (Downloading (filename (demo_item ''lost''))) Info)
                    (put Update_queue demo_running)", THEN conjunct1] rp h
    by (simp add: put_def demo_item_def DownloadItem_init_def)
  show ?thesis using r h a b by blast
qed

subsection \<open>End timestamps\<close>

text \<open>
  C6, as stated, fails: a task that is skipped reaches the terminal state \<open>SKIPPED\<close>
  and has no end timestamp, in both files (the skip branch leaves the body at \<open>continue\<close>,
  before \<open>item.end_time\<close> is written).
\<close>

theorem skipped_without_end_time_counterexample:
  "map status (final_items (download_worker demo_cli no_signal (demo_queue [''have''])))
     = [SKIPPED]
   \<and> map end_time (final_items (download_worker demo_cli no_signal (demo_queue [''have''])))
     = [None]
   \<and> map status (final_items (richer_download_worker demo_cli no_signal (demo_queue [''have''])))
     = [SKIPPED]
   \<and> map end_time (final_items (richer_download_worker demo_cli no_signal
         (demo_queue [''have'']))) = [None]"
  by (simp add: demo_defs worker_defs)

text \<open>
  C6, amended. When the body runs to its end, the task is either \<open>COMPLETED\<close> or
  \<open>FAILED\<close> with an end timestamp recorded, or it is \<open>SKIPPED\<close> with its start and end
  timestamps as they were (unset for a task as loaded). Both files.
\<close>

theorem end_time_of_attempted_tasks:
  "(iteration env T idx len item n g = (None, item', n', g')
      \<longrightarrow> (status item' = SKIPPED \<and> end_time item' = end_time item
             \<and> start_time item' = start_time item)
          \<or> ((status item' = COMPLETED \<or> status item' = FAILED) \<and> end_time item' \<noteq> None))
   \<and> (richer_iteration env T idx len item n g = (None, item', n', g')
      \<longrightarrow> (status item' = SKIPPED \<and> end_time item' = end_time item
             \<and> start_time item' = start_time item)
          \<or> ((status item' = COMPLETED \<or> status item' = FAILED) \<and> end_time item' \<noteq> None))
   \<and> start_time (DownloadItem_init env u) = None \<and> end_time (DownloadItem_init env u) = None"
proof -
  have a: "iteration env T idx len item n g = (None, item', n', g')
      \<longrightarrow> (status item' = SKIPPED \<and> end_time item' = end_time item
             \<and> start_time item' = start_time item)
          \<or> ((status item' = COMPLETED \<or> status item' = FAILED) \<and> end_time item' \<noteq> None)"
    using iteration_cases [of env T idx len item n g]
      attempt_finished [of env T item n
        "put (Progress idx len) (put (Status (Processing (idx + 1) len (filename item))) g)"
        item' n' g']
    by auto
  have b: "richer_iteration env T idx len item n g = (None, item', n', g')
      \<longrightarrow> (status item' = SKIPPED \<and> end_time item' = end_time item
             \<and> start_time item' = start_time item)
          \<or> ((status item' = COMPLETED \<or> status item' = FAILED) \<and> end_time item' \<noteq> None)"
    using richer_iteration_cases [of env T idx len item n g]
      richer_attempt_finished [of env T idx len item n g item' n' g']
    by auto
  show ?thesis using a b by (simp add: DownloadItem_init_def)
qed

theorem end_time_of_attempted_tasks_witness:
  "fst (iteration demo_cli 2 0 1 (demo_item ''fail'') 0 demo_running) = None
   \<and> status (fst (snd (iteration demo_cli 2 0 1 (demo_item ''fail'') 0 demo_running))) = FAILED
   \<and> end_time (fst (snd (iteration demo_cli 2 0 1 (demo_item ''fail'') 0 demo_running))) \<noteq> None
   \<and> fst (richer_iteration demo_cli 2 0 1 (demo_item ''have'') 0 demo_running) = None
   \<and> status (fst (snd (richer_iteration demo_cli 2 0 1 (demo_item ''have'') 0 demo_running)))
       = SKIPPED
   \<and> end_time (fst (snd (richer_iteration demo_cli 2 0 1 (demo_item ''have'') 0 demo_running)))
       = None"
proof -
  let ?x = "iteration demo_cli 2 0 1 (demo_item ''fail'') 0 demo_running"
  let ?y = "richer_iteration demo_cli 2 0 1 (demo_item ''have'') 0 demo_running"
  have x: "fst ?x = None" "status (fst (snd ?x)) = FAILED"
    and y: "fst ?y = None" "status (fst (snd ?y)) = SKIPPED"
    and e: "end_time (demo_item ''have'') = None"
    by (simp_all add: demo_defs worker_defs)
  have xe: "?x = (None, fst (snd ?x), fst (snd (snd ?x)), snd (snd (snd ?x)))"
    using x(1) by (metis prod.collapse)
  have ye: "?y = (None, fst (snd ?y), fst (snd (snd ?y)), snd (snd (snd ?y)))"
    using y(1) by (metis prod.collapse)
  have "end_time (fst (snd ?x)) \<noteq> None"
    using end_time_of_attempted_tasks [where env = demo_cli and T = 2 and idx = 0 and len = 1
        and item = "demo_item ''fail''" and n = 0 and g = demo_running
        and item' = "fst (snd ?x)" and n' = "fst (snd (snd ?x))" and g' = "snd (snd (snd ?x))",
        THEN conjunct1] xe x(2)
    by auto
  moreover have "end_time (fst (snd ?y)) = None"
    using end_time_of_attempted_tasks [where env = demo_cli and T = 2 and idx = 0 and len = 1
        and item = "demo_item ''have''" and n = 0 and g = demo_running
        and item' = "fst (snd ?y)" and n' = "fst (snd (snd ?y))" and g' = "snd (snd (snd ?y))",
        THEN conjunct2, THEN conjunct1] ye y(2) e
    by auto
  ultimately show ?thesis using x y by blast
qed

subsection \<open>A download call that returns \<open>False\<close>\<close>

text \<open>
  C5 at the queue \<open>[fail, a]\<close>, where the download call returns \<open>False\<close> for the
  first task: \<open>richer_gui.py\<close> marks the task \<open>FAILED\<close> and goes on to the next one, but
  records no failure detail (\<open>item.error\<close> stays \<open>None\<close>); \<open>repack.py\<close> records
  \<open>"Download failed"\<close>.
\<close>

theorem richer_failure_without_detail:
  "map status (final_items (richer_download_worker demo_cli no_signal
       (demo_queue [''fail'', ''a'']))) = [FAILED, COMPLETED]
   \<and> map error (final_items (richer_download_worker demo_cli no_signal
       (demo_queue [''fail'', ''a'']))) = [None, None]
   \<and> map error (final_items (download_worker demo_cli no_signal
       (demo_queue [''fail'', ''a'']))) = [Some ''Download failed'', None]"
  by (simp add: demo_defs worker_defs)

subsection \<open>A leftover temporary file\<close>

text \<open>
  C7 at the queue \<open>[tmp]\<close>, where \<open>check_file_exists\<close> names a file ending in \<open>.tmp\<close>
  (the cleaning step is off): \<open>richer_gui.py\<close> skips the task and makes no download
  call, because its skip test knows \<open>.crdownload\<close> and \<open>.part\<close> only; \<open>repack.py\<close>,
  whose test also knows \<open>.tmp\<close>, makes the download call.
\<close>

theorem richer_skips_tmp_artifact:
  "check_file_exists demo_cli [Mkdir, Setup_driver (Inr 1)] ''tmp'' = Some ''x.tmp''
   \<and> endswith_any ''x.tmp'' temp_suffixes
   \<and> map status (final_items (richer_download_worker demo_cli no_signal (demo_queue [''tmp''])))
       = [SKIPPED]
   \<and> final_calls (richer_download_worker demo_cli no_signal (demo_queue [''tmp'']))
       = [Mkdir, Setup_driver (Inr 1), Quit 1]
   \<and> final_calls (download_worker demo_cli no_signal (demo_queue [''tmp'']))
       = [Mkdir, Setup_driver (Inr 1), Click (Some 1) ''tmp'', Sleep 2, Quit 1]"
  by (simp add: demo_defs worker_defs)





























subsection \<open>Pause and Stop during a run\<close>





end
